theory Spec2Isabelle
  imports
    Complex_Main
    "HOL-Library.Sublist"
    "HOL-Library.Char_ord"
    "HOL-Library.List_Lexorder"
    "HOL-Library.AList"
    "HOL-Library.Multiset"
begin

section \<open>Release validation driver: the Python standard library as the code uses it\<close>

text \<open>
  The development embeds \<^verbatim>\<open>RelVal/o2dpg_release_validation.py\<close>. Python values are
  modelled as follows: \<^verbatim>\<open>str\<close> is \<^typ>\<open>string\<close>, compared
  lexicographically by character code as Python does; \<^verbatim>\<open>int\<close> is \<^typ>\<open>int\<close>;
  a \<^verbatim>\<open>float\<close> is the rational number it denotes (\<^typ>\<open>rat\<close>), and the one
  float operation of the script, the true division of two file sizes, is taken exactly, where
  Python rounds the quotient to the nearest double. An exception is a value of
  \<open>error\<close> on the left of a sum.
\<close>

datatype error =
    ZeroDivisionError
  | AttributeError
  | TypeError
  | LoadError

text \<open>\<^verbatim>\<open>os.path.join(a, b)\<close> on POSIX.\<close>

definition join :: "string \<Rightarrow> string \<Rightarrow> string" where
  "join a b =
     (if b \<noteq> [] \<and> hd b = CHR ''/'' then b
      else if a = [] \<or> last a = CHR ''/'' then a @ b
      else a @ ''/'' @ b)"

text \<open>\<^verbatim>\<open>sub in s\<close> on strings: \<open>sub\<close> occurs in \<open>s\<close> as a contiguous piece.\<close>

definition str_in :: "string \<Rightarrow> string \<Rightarrow> bool" where
  "str_in sub s = sublist sub s"

text \<open>\<^verbatim>\<open>s.lstrip("/")\<close>.\<close>

definition lstrip_slash :: "string \<Rightarrow> string" where
  "lstrip_slash s = dropWhile (\<lambda>c. c = CHR ''/'') s"

text \<open>\<^verbatim>\<open>s.replace(".", "_")\<close>.\<close>

definition replace_dot :: "string \<Rightarrow> string" where
  "replace_dot s = map (\<lambda>c. if c = CHR ''.'' then CHR ''_'' else c) s"

text \<open>
  \<^verbatim>\<open>a / b\<close> on two integers: Python raises \<^verbatim>\<open>ZeroDivisionError\<close> for a zero
  divisor, where HOL's division returns 0.
\<close>

definition truediv :: "int \<Rightarrow> int \<Rightarrow> error + rat" where
  "truediv a b = (if b = 0 then Inl ZeroDivisionError else Inr (of_int a / of_int b))"

text \<open>\<^verbatim>\<open>itertools.combinations(range(n), 2)\<close>: the pairs \<open>i < j < n\<close>, in
  lexicographic order.\<close>

definition combinations2 :: "nat \<Rightarrow> (nat \<times> nat) list" where
  "combinations2 n = concat (map (\<lambda>i. map (\<lambda>j. (i, j)) [Suc i ..< n]) [0 ..< n])"

section \<open>SizeAuditor: \<^verbatim>\<open>exceeding_difference_thresh\<close>\<close>

text \<open>
  The loop body of \<^verbatim>\<open>exceeding_difference_thresh\<close> for one pair. The condition is
  the source's \<^verbatim>\<open>diff / sizes[i2] > threshold or diff / sizes[i2] > threshold\<close>, both
  disjuncts dividing by \<^verbatim>\<open>sizes[i2]\<close>; \<^verbatim>\<open>or\<close> evaluates the second
  quotient only when the first comparison is false. The indices come from
  \<open>combinations2 (length sizes)\<close> and are in range.
\<close>

definition exceeds :: "int list \<Rightarrow> rat \<Rightarrow> nat \<times> nat \<Rightarrow> error + bool" where
  "exceeds sizes threshold p =
     (let i1 = fst p; i2 = snd p;
          diff = \<bar>sizes ! i1 - sizes ! i2\<bar>
      in case truediv diff (sizes ! i2) of
           Inl e \<Rightarrow> Inl e
         | Inr q1 \<Rightarrow>
             if q1 > threshold then Inr True
             else (case truediv diff (sizes ! i2) of
                     Inl e \<Rightarrow> Inl e
                   | Inr q2 \<Rightarrow> Inr (q2 > threshold)))"

fun edt_loop ::
  "int list \<Rightarrow> rat \<Rightarrow> (nat \<times> nat) list \<Rightarrow> (nat \<times> nat) list \<Rightarrow> error + (nat \<times> nat) list"
where
  "edt_loop sizes threshold [] diff_indices = Inr diff_indices"
| "edt_loop sizes threshold (p # ps) diff_indices =
     (case exceeds sizes threshold p of
        Inl e \<Rightarrow> Inl e
      | Inr True \<Rightarrow> edt_loop sizes threshold ps (diff_indices @ [p])
      | Inr False \<Rightarrow> edt_loop sizes threshold ps diff_indices)"

definition exceeding_difference_thresh :: "int list \<Rightarrow> rat \<Rightarrow> error + (nat \<times> nat) list" where
  "exceeding_difference_thresh sizes threshold =
     edt_loop sizes threshold (combinations2 (length sizes)) []"

text \<open>The relative difference of a pair, as the source computes it.\<close>

definition rel_diff :: "int list \<Rightarrow> nat \<times> nat \<Rightarrow> rat" where
  "rel_diff sizes p = of_int \<bar>sizes ! fst p - sizes ! snd p\<bar> / of_int (sizes ! snd p)"

section \<open>The outside world\<close>

text \<open>
  The script acts on a file system, on a ROOT session and on child processes. Its effects
  are recorded, in order, as a list of events; what it reads from the outside (the file
  system, ROOT, the exit status of a child, the formatting of numbers) is a parameter of the
  model, a record of functions that see the events performed so far. A theorem assumes of
  these functions only what it states, and otherwise holds whatever the file system holds
  and whatever ROOT and the child processes do.
\<close>

text \<open>The two dictionaries that the script writes with \<^verbatim>\<open>json.dump\<close>; a dictionary is
  an association list in insertion order.\<close>

datatype json_doc =
    SizeReport "string list" "(string \<times> int list) list" rat
  | Summary "(string \<times> string list) list"

text \<open>A \<^verbatim>\<open>TChain\<close>: its tree name and the file names added to it.\<close>

type_synonym chain = "string \<times> string list"

datatype event =
    Print string
  | Makedirs string
  | JsonDump string json_doc
  | Popen string string
  | TFileOpen string string
  | Draw chain string
  | HistReset string
  | HistWrite string string
  | TFileClose string

text \<open>
  \<open>Popen cmd cwd\<close> is the child started in \<open>cwd\<close> and waited for;
  \<open>Draw c e\<close> is \<^verbatim>\<open>c.Draw(e)\<close>; \<open>HistWrite f n\<close> is the histogram named
  \<open>n\<close> written into the ROOT file \<open>f\<close>, the file made current by the
  \<^verbatim>\<open>cd()\<close> before it.
\<close>

type_synonym history = "event list"

record env =
  o2dpg_root :: string
  isfile :: "history \<Rightarrow> string \<Rightarrow> bool"
  isdir :: "history \<Rightarrow> string \<Rightarrow> bool"
  exists :: "history \<Rightarrow> string \<Rightarrow> bool"
  glob :: "history \<Rightarrow> bool \<Rightarrow> string \<Rightarrow> string list"
  st_size :: "history \<Rightarrow> string \<Rightarrow> int"
  abspath :: "string \<Rightarrow> string"
  load_test_summary :: "history \<Rightarrow> string \<Rightarrow> (string \<rightharpoonup> string list) option"
  wait :: "history \<Rightarrow> int"
  get_list_of_leaves :: "history \<Rightarrow> chain \<Rightarrow> (string \<times> string) list"
  tfile_usable :: "history \<Rightarrow> string \<Rightarrow> bool"
  draw_result :: "history \<Rightarrow> chain \<Rightarrow> string \<Rightarrow> int"
  str_int :: "int \<Rightarrow> string"
  str_float :: "rat \<Rightarrow> string"
  str_pairs :: "(nat \<times> nat) list \<Rightarrow> string"

text \<open>
  \<open>glob e h r p\<close> is \<^verbatim>\<open>glob(p, recursive=r)\<close>; \<open>load_test_summary e h f\<close> is
  \<^verbatim>\<open>json.load(open(f))["test_summary"]\<close>, \<open>None\<close> when the file cannot be opened or
  parsed or has no such key; \<open>wait e h\<close> is the exit status that \<^verbatim>\<open>p.wait()\<close>
  returns for the child started last; \<open>get_list_of_leaves\<close> gives each leaf's name and
  type name; \<open>tfile_usable e h f\<close> says that the \<^verbatim>\<open>TFile.Open\<close> just performed
  gave a file that is neither null nor a zombie; \<open>draw_result\<close> is the value
  \<^verbatim>\<open>Draw\<close> returns, -1 on failure.
\<close>

text \<open>The command line arguments of \<^verbatim>\<open>rel-val\<close>; \<^verbatim>\<open>--input\<close> takes exactly
  two values; \<open>output'\<close> is \<^verbatim>\<open>args.output\<close> and \<open>threshold_arg\<close> is
  \<^verbatim>\<open>args.threshold\<close>, which the script never reads.\<close>

record args =
  input :: "string \<times> string"
  output' :: string
  test :: int
  chi2_value :: rat
  rel_mean_diff :: rat
  rel_entries_diff :: rat
  select_critical :: bool
  no_plots :: bool
  threshold_arg :: rat
  with_hits :: bool
  with_tpctracks :: bool
  with_kine :: bool
  with_analysis :: bool
  with_qc :: bool
  detectors :: "string list"

text \<open>Truth value of an optional list (\<^verbatim>\<open>None\<close> and the empty list are false).\<close>

definition truthy :: "'a list option \<Rightarrow> bool" where
  "truthy xs = (case xs of None \<Rightarrow> False | Some l \<Rightarrow> l \<noteq> [])"

text \<open>\<^verbatim>\<open>if not exists(d): makedirs(d)\<close>.\<close>

definition ensure_dir :: "env \<Rightarrow> history \<Rightarrow> string \<Rightarrow> history" where
  "ensure_dir e h d = (if \<not> exists e h d then h @ [Makedirs d] else h)"

text \<open>
  \<^verbatim>\<open>list(set(xs) & set(ys))\<close>. Python leaves the order of the resulting list open; the
  model takes the order of \<open>xs\<close>. Every use below sorts the result, or a list built
  from it, afterwards.
\<close>

definition set_inter :: "string list \<Rightarrow> string list \<Rightarrow> string list" where
  "set_inter xs ys = remdups (filter (\<lambda>x. x \<in> set ys) xs)"

section \<open>Input validation and PathSetMatcher\<close>

definition is_sim_dir :: "env \<Rightarrow> history \<Rightarrow> string \<Rightarrow> bool" where
  "is_sim_dir e h path =
     (if \<not> isdir e h path then False
      else if glob e h False (path @ ''/pipeline*'') = [] then False
      else True)"

text \<open>The second loop of \<^verbatim>\<open>find_mutual_files\<close>, for one directory: sort the matches,
  then cut the directory off each and strip leading slashes.\<close>

definition relative_names :: "string \<Rightarrow> string list \<Rightarrow> string list" where
  "relative_names d f = map (\<lambda>p. lstrip_slash (drop (length d) p)) (sort f)"

text \<open>The \<^verbatim>\<open>grep\<close> loops: for each pattern in turn, every cached entry that contains
  it is appended.\<close>

definition grep_filter :: "string list \<Rightarrow> string list \<Rightarrow> string list" where
  "grep_filter grep intersection_cache =
     concat (map (\<lambda>g. filter (\<lambda>ic. str_in g ic) intersection_cache) grep)"

definition find_mutual_files ::
  "env \<Rightarrow> history \<Rightarrow> string list \<Rightarrow> string \<Rightarrow> string list option \<Rightarrow> string list"
where
  "find_mutual_files e h dirs glob_pattern grep =
     (let files = map (\<lambda>d. glob e h True (d @ ''/**/'' @ glob_pattern)) dirs;
          files = map (\<lambda>(f, d). relative_names d f) (zip files dirs)
      in if files = [] then []
         else
           let intersection = foldl set_inter (hd files) (tl files);
               intersection =
                 (if truthy grep then grep_filter (the grep) intersection else intersection)
           in sort intersection)"

section \<open>SizeAuditor: \<^verbatim>\<open>file_sizes\<close>\<close>

text \<open>\<^verbatim>\<open>sep.join(xs)\<close> and the format \<^verbatim>\<open>{s:<{n}}\<close> (pad with spaces on the right
  up to width \<open>n\<close>).\<close>

fun str_join :: "string \<Rightarrow> string list \<Rightarrow> string" where
  "str_join sep [] = []"
| "str_join sep [x] = x"
| "str_join sep (x # y # ys) = x @ sep @ str_join sep (y # ys)"

definition ljust :: "string \<Rightarrow> nat \<Rightarrow> string" where
  "ljust s n = s @ replicate (n - length s) CHR '' ''"

text \<open>One printed row, before the verdict is appended: the file name and its size under
  each directory, each padded to its column's width.\<close>

definition row_text :: "env \<Rightarrow> nat list \<Rightarrow> string \<Rightarrow> int list \<Rightarrow> string" where
  "row_text e max_col_lengths f compare_sizes =
     ''| '' @ ljust f (max_col_lengths ! 0)
     @ concat (map (\<lambda>(j, c). '' | '' @ ljust (str_int e c) (max_col_lengths ! (j + 1)))
                 (enumerate 0 compare_sizes))
     @ '' |''"

text \<open>The printing loop of \<^verbatim>\<open>file_sizes\<close> over \<^verbatim>\<open>enumerate(intersection)\<close>; the
  accumulator is \<^verbatim>\<open>collect_dict["files"]\<close>.\<close>

fun file_sizes_rows ::
  "env \<Rightarrow> rat \<Rightarrow> int list list \<Rightarrow> nat list \<Rightarrow> (nat \<times> string) list
   \<Rightarrow> (string \<times> int list) list \<Rightarrow> history
   \<Rightarrow> error + ((string \<times> int list) list \<times> history)"
where
  "file_sizes_rows e threshold sizes mcl [] files h = Inr (files, h)"
| "file_sizes_rows e threshold sizes mcl ((i, f) # rest) files h =
     (let compare_sizes = map (\<lambda>s. s ! i) sizes;
          o1 = row_text e mcl f compare_sizes
      in case exceeding_difference_thresh compare_sizes threshold of
           Inl err \<Rightarrow> Inl err
         | Inr diff_indices \<Rightarrow>
             if diff_indices \<noteq> [] then
               file_sizes_rows e threshold sizes mcl rest
                 (AList.update f compare_sizes files)
                 (h @ [Print (o1 @ ''  <==  EXCEEDING threshold of '' @ str_float e threshold
                              @ '' at columns '' @ str_pairs e diff_indices @ '' |'')])
             else
               file_sizes_rows e threshold sizes mcl rest files (h @ [Print (o1 @ '' OK |'')]))"

definition file_sizes :: "env \<Rightarrow> history \<Rightarrow> string list \<Rightarrow> rat \<Rightarrow> error + (json_doc \<times> history)"
where
  "file_sizes e h dirs threshold =
     (let intersection = find_mutual_files e h dirs ''*.root'' None;
          sizes = map (\<lambda>d. map (\<lambda>f. st_size e h (join d f)) intersection) dirs;
          max_col_lengths =
            foldl max 0 (map length intersection)
            # map (\<lambda>s. foldl max 0 (map (\<lambda>size. length (str_int e size)) s)) sizes;
          top_row = ''| '' @ str_join '' | '' dirs @ '' |'';
          h = h @ [Print ([CHR 0x0A] @ top_row @ [CHR 0x0A])]
      in case file_sizes_rows e threshold sizes max_col_lengths
                (enumerate 0 intersection) [] h of
           Inl err \<Rightarrow> Inl err
         | Inr (files, h) \<Rightarrow> Inr (SizeReport dirs files threshold, h))"

section \<open>ColumnarReducer: \<^verbatim>\<open>make_generic_histograms_from_chain\<close>\<close>

definition load_root_file :: "env \<Rightarrow> history \<Rightarrow> string \<Rightarrow> string \<Rightarrow> string option \<times> history"
where
  "load_root_file e h path option =
     (let h = h @ [TFileOpen path option]
      in if \<not> tfile_usable e h path then
           (None, h @ [Print (''WARNING: ROOT file '' @ path
                              @ '' might not exist or could not be opened'')])
         else (Some path, h))"

text \<open>
  What the caller passes as \<^verbatim>\<open>filenames1\<close> and \<^verbatim>\<open>filenames2\<close>: a list of paths
  or, from the ungrouped branch of \<^verbatim>\<open>rel_val_ttree\<close>, one path. The loop
  \<^verbatim>\<open>for f in filenames\<close> over a \<^verbatim>\<open>str\<close> yields its characters, each a string
  of length one.
\<close>

datatype filenames = Paths "string list" | Path string

fun iterate :: "filenames \<Rightarrow> string list" where
  "iterate (Paths fs) = fs"
| "iterate (Path p) = map (\<lambda>c. [c]) p"

definition accepted_types :: "string list" where
  "accepted_types = [''UInt_t'', ''Int_t'', ''Float_t'', ''Double_t'', ''Double32_t'']"

text \<open>Steps 1 and 2: the names of the leaves of an accepted type, sorted.\<close>

definition branch_names :: "env \<Rightarrow> history \<Rightarrow> chain \<Rightarrow> string list" where
  "branch_names e h c =
     sort (map fst (filter (\<lambda>l. snd l \<in> set accepted_types) (get_list_of_leaves e h c)))"

text \<open>
  The first loop: a histogram per field from side 1. A field whose \<^verbatim>\<open>Draw\<close> returns
  -1 is passed over by \<^verbatim>\<open>continue\<close>, with nothing printed. The accumulator is
  \<^verbatim>\<open>(branch_names2, histograms)\<close> and the events; a histogram is known by its name.
  \<^verbatim>\<open>output_file1.cd()\<close> on \<^verbatim>\<open>None\<close> raises.
\<close>

fun histograms1 ::
  "env \<Rightarrow> chain \<Rightarrow> string option \<Rightarrow> string list \<Rightarrow> string list \<Rightarrow> string list \<Rightarrow> history
   \<Rightarrow> error + (string list \<times> string list \<times> history)"
where
  "histograms1 e chain1 output_file1 [] branch_names2 histograms h =
     Inr (branch_names2, histograms, h)"
| "histograms1 e chain1 output_file1 (b # bs) branch_names2 histograms h =
     (let h_name = replace_dot b;
          expr = b @ ''>>'' @ h_name;
          h = h @ [Draw chain1 expr]
      in if draw_result e h chain1 expr = - 1 then
           histograms1 e chain1 output_file1 bs branch_names2 histograms h
         else
           (case output_file1 of
              None \<Rightarrow> Inl AttributeError
            | Some file1 \<Rightarrow>
                histograms1 e chain1 output_file1 bs (branch_names2 @ [b])
                  (histograms @ [h_name]) (h @ [HistWrite file1 h_name])))"

text \<open>
  The second loop, over \<^verbatim>\<open>zip(branch_names2, histograms)\<close>: reset the histogram, fill
  it from side 2 and write it. The value that \<^verbatim>\<open>chain2.Draw\<close> returns is not looked at.
\<close>

fun histograms2 ::
  "env \<Rightarrow> chain \<Rightarrow> string option \<Rightarrow> (string \<times> string) list \<Rightarrow> history \<Rightarrow> error + history"
where
  "histograms2 e chain2 output_file2 [] h = Inr h"
| "histograms2 e chain2 output_file2 ((b, hist) # rest) h =
     (let h = h @ [HistReset hist]
      in case output_file2 of
           None \<Rightarrow> Inl AttributeError
         | Some file2 \<Rightarrow>
             histograms2 e chain2 output_file2 rest
               (h @ [Draw chain2 (b @ ''>>+'' @ hist), HistWrite file2 hist]))"

definition make_generic_histograms_from_chain ::
  "env \<Rightarrow> history \<Rightarrow> filenames \<Rightarrow> filenames \<Rightarrow> string \<Rightarrow> string \<Rightarrow> string \<Rightarrow> error + history"
where
  "make_generic_histograms_from_chain e h filenames1 filenames2
       output_filepath1 output_filepath2 treename =
     (let chain1 = (treename, iterate filenames1);
          chain2 = (treename, iterate filenames2);
          branch_names1 = branch_names e h chain1;
          branch_names2 = branch_names e h chain2;
          (branch_names1, h) =
            (if branch_names1 \<noteq> branch_names2 then
               (set_inter branch_names1 branch_names2,
                h @ [Print ''WARNING: Found different branches in input files''])
             else (branch_names1, h));
          (output_file1, h) = load_root_file e h output_filepath1 ''RECREATE''
      in case histograms1 e chain1 output_file1 branch_names1 [] [] h of
           Inl err \<Rightarrow> Inl err
         | Inr (branch_names2, histograms, h) \<Rightarrow>
             let (output_file2, h) = load_root_file e h output_filepath2 ''RECREATE''
             in case histograms2 e chain2 output_file2 (zip branch_names2 histograms) h of
                  Inl err \<Rightarrow> Inl err
                | Inr h \<Rightarrow>
                    (case output_file1 of
                       None \<Rightarrow> Inl AttributeError
                     | Some file1 \<Rightarrow>
                         (case output_file2 of
                            None \<Rightarrow> Inl AttributeError
                          | Some file2 \<Rightarrow> Inr (h @ [TFileClose file1, TFileClose file2]))))"

section \<open>ComparisonRunner: \<^verbatim>\<open>rel_val_files\<close>\<close>

text \<open>\<^verbatim>\<open>ROOT_MACRO = join(O2DPG_ROOT, "RelVal", "ReleaseValidation.C")\<close>.\<close>

definition ROOT_MACRO :: "env \<Rightarrow> string" where
  "ROOT_MACRO e = join (join (o2dpg_root e) ''RelVal'') ''ReleaseValidation.C''"

text \<open>
  The command line. In the source's string literal \<^verbatim>\<open>\\\<close> is a backslash and
  \<^verbatim>\<open>\"\<close> a double quote, written here by their codes \<open>0x5C\<close> and \<open>0x22\<close>.
\<close>

definition macro_call :: "env \<Rightarrow> string \<Rightarrow> string \<Rightarrow> args \<Rightarrow> string" where
  "macro_call e file1 file2 a =
     (let select_critical = (if select_critical a then ''kTRUE'' else ''kFALSE'');
          no_plots = (if no_plots a then ''kTRUE'' else ''kFALSE'')
      in [CHR 0x5C, CHR ''('', CHR 0x5C, CHR 0x22] @ abspath e file1
         @ [CHR 0x5C, CHR 0x22, CHR '','', CHR 0x5C, CHR 0x22] @ abspath e file2
         @ [CHR 0x5C, CHR 0x22, CHR '','']
         @ str_int e (test a) @ '','' @ str_float e (chi2_value a) @ '',''
         @ str_float e (rel_mean_diff a) @ '','' @ str_float e (rel_entries_diff a) @ '',''
         @ select_critical @ '','' @ no_plots @ [CHR 0x5C, CHR '')''])"

text \<open>
  \<^verbatim>\<open>Popen(split(cmd), cwd=output_dir)\<close> followed by \<^verbatim>\<open>p.wait()\<close> is the event
  \<open>Popen cmd output_dir\<close>; the exit status that \<^verbatim>\<open>p.wait()\<close> returns is
  \<open>wait e h\<close> on the events up to and including that one. The source drops it and
  returns the constant 0.
\<close>

definition rel_val_files ::
  "env \<Rightarrow> history \<Rightarrow> string \<Rightarrow> string \<Rightarrow> args \<Rightarrow> string \<Rightarrow> int \<times> history"
where
  "rel_val_files e h file1 file2 a output_dir =
     (let h = ensure_dir e h output_dir;
          cmd = macro_call e file1 file2 a;
          cmd = ''root -l -b -q '' @ ROOT_MACRO e @ cmd;
          h = h @ [Print (''Running '' @ cmd)];
          h = h @ [Popen cmd output_dir];
          status = wait e h
      in (0, h))"

section \<open>SeverityAggregator: \<^verbatim>\<open>has_severity\<close> and \<^verbatim>\<open>add_to_summary\<close>\<close>

text \<open>The loop over the requested severities; \<^verbatim>\<open>if not names\<close> passes over a severity
  that is absent or has an empty list.\<close>

fun has_severity_loop ::
  "(string \<rightharpoonup> string list) \<Rightarrow> string list \<Rightarrow> bool \<Rightarrow> history \<Rightarrow> bool \<times> history"
where
  "has_severity_loop res [] ret h = (ret, h)"
| "has_severity_loop res (s # ss) ret h =
     (case res s of
        None \<Rightarrow> has_severity_loop res ss ret h
      | Some names \<Rightarrow>
          if names = [] then has_severity_loop res ss ret h
          else has_severity_loop res ss True
                 (h @ [Print (''Histograms for severity '' @ s @ '':'')]
                    @ map (\<lambda>n. Print (''    '' @ n)) names))"

definition has_severity ::
  "env \<Rightarrow> history \<Rightarrow> string \<Rightarrow> string list \<Rightarrow> error + (bool \<times> history)"
where
  "has_severity e h filename severity =
     (case load_test_summary e h filename of
        None \<Rightarrow> Inl LoadError
      | Some res \<Rightarrow> Inr (has_severity_loop res severity False h))"

text \<open>\<^verbatim>\<open>add_to_summary\<close> calls \<^verbatim>\<open>has_severity(p)\<close> with the default severities.\<close>

fun summary_list ::
  "env \<Rightarrow> string list \<Rightarrow> string list \<Rightarrow> history \<Rightarrow> error + (string list \<times> history)"
where
  "summary_list e [] acc h = Inr (acc, h)"
| "summary_list e (p # ps) acc h =
     (case has_severity e h p [''BAD'', ''CRIT_NC''] of
        Inl err \<Rightarrow> Inl err
      | Inr (flagged, h) \<Rightarrow> summary_list e ps (if flagged then acc @ [p] else acc) h)"

definition add_to_summary ::
  "env \<Rightarrow> history \<Rightarrow> string list \<Rightarrow> string \<Rightarrow> (string \<times> string list) list
   \<Rightarrow> error + ((string \<times> string list) list \<times> history)"
where
  "add_to_summary e h paths_to_summary key summary_dict =
     (case summary_list e paths_to_summary [] h of
        Inl err \<Rightarrow> Inl err
      | Inr (l, h) \<Rightarrow> Inr (AList.update key l summary_dict, h))"

definition inspect :: "env \<Rightarrow> history \<Rightarrow> string \<Rightarrow> string list \<Rightarrow> error + (bool \<times> history)"
where
  "inspect e h file severity = has_severity e h file severity"

section \<open>\<^verbatim>\<open>rel_val_ttree\<close> and \<^verbatim>\<open>rel_val_histograms\<close>\<close>

text \<open>
  The first part of \<^verbatim>\<open>rel_val_ttree\<close>, up to the comment ``paths for chains prepared'':
  the lists \<^verbatim>\<open>to_be_chained1\<close>, \<^verbatim>\<open>to_be_chained2\<close> and \<^verbatim>\<open>output_dirs\<close>.
\<close>

definition to_be_chained ::
  "string \<Rightarrow> string \<Rightarrow> string list \<Rightarrow> string list option
   \<Rightarrow> filenames list \<times> filenames list \<times> string list"
where
  "to_be_chained dir1 dir2 files combine_patterns =
     (if truthy combine_patterns then
        (map (\<lambda>cp. Paths (map (\<lambda>hf. join dir1 hf) (filter (\<lambda>hf. str_in cp hf) files)))
           (the combine_patterns),
         map (\<lambda>cp. Paths (map (\<lambda>hf. join dir2 hf) (filter (\<lambda>hf. str_in cp hf) files)))
           (the combine_patterns),
         map (\<lambda>cp. cp @ ''_dir'') (the combine_patterns))
      else
        (map (\<lambda>hf. Path (join dir1 hf)) files,
         map (\<lambda>hf. Path (join dir1 hf)) files,
         map (\<lambda>hf. hf @ ''_dir'') files))"

text \<open>The loop over \<^verbatim>\<open>zip(to_be_chained1, to_be_chained2, output_dirs)\<close>.\<close>

fun rel_val_ttree_loop ::
  "env \<Rightarrow> string \<Rightarrow> args \<Rightarrow> string \<Rightarrow> (filenames \<times> filenames \<times> string) list \<Rightarrow> history
   \<Rightarrow> error + history"
where
  "rel_val_ttree_loop e output_dir a treename [] h = Inr h"
| "rel_val_ttree_loop e output_dir a treename ((tbc1, tbc2, od) # rest) h =
     (let output_dir_hf = join output_dir od;
          h = ensure_dir e h output_dir_hf
      in case make_generic_histograms_from_chain e h tbc1 tbc2
                (join output_dir_hf ''file1.root'') (join output_dir_hf ''file2.root'')
                treename of
           Inl err \<Rightarrow> Inl err
         | Inr h \<Rightarrow>
             let (r, h) = rel_val_files e h
                            (abspath e (join output_dir_hf ''file1.root''))
                            (abspath e (join output_dir_hf ''file2.root'')) a output_dir_hf
             in rel_val_ttree_loop e output_dir a treename rest h)"

definition rel_val_ttree ::
  "env \<Rightarrow> history \<Rightarrow> string \<Rightarrow> string \<Rightarrow> string list \<Rightarrow> string \<Rightarrow> args \<Rightarrow> string
   \<Rightarrow> string list option \<Rightarrow> error + (int \<times> history)"
where
  "rel_val_ttree e h dir1 dir2 files output_dir a treename combine_patterns =
     (let (to_be_chained1, to_be_chained2, output_dirs) =
            to_be_chained dir1 dir2 files combine_patterns
      in case rel_val_ttree_loop e output_dir a treename
                (zip to_be_chained1 (zip to_be_chained2 output_dirs)) h of
           Inl err \<Rightarrow> Inl err
         | Inr h \<Rightarrow> Inr (0, h))"

fun rel_val_histograms ::
  "env \<Rightarrow> history \<Rightarrow> string \<Rightarrow> string \<Rightarrow> string list \<Rightarrow> string \<Rightarrow> args \<Rightarrow> history"
where
  "rel_val_histograms e h dir1 dir2 [] output_dir a = h"
| "rel_val_histograms e h dir1 dir2 (f # files) output_dir a =
     (let output_dir_f = join output_dir (f @ ''_dir'');
          h = ensure_dir e h output_dir_f;
          (r, h) = rel_val_files e h (join dir1 f) (join dir2 f) a output_dir_f
      in rel_val_histograms e h dir1 dir2 files output_dir a)"

section \<open>Orchestrator: \<^verbatim>\<open>rel_val_sim_dirs\<close> and \<^verbatim>\<open>rel_val\<close>\<close>

definition look_for :: string where
  "look_for = ''Summary.json''"

text \<open>
  The five category blocks of \<^verbatim>\<open>rel_val_sim_dirs\<close>, each the body of its
  \<^verbatim>\<open>if args.with_...\<close>. A block takes the summary dictionary and the events so far
  and gives them back updated. The hits block files its verdicts under the key
  \<^verbatim>\<open>"hist"\<close>.
\<close>

definition hits ::
  "env \<Rightarrow> args \<Rightarrow> (string \<times> string list) list \<times> history
   \<Rightarrow> error + ((string \<times> string list) list \<times> history)"
where
  "hits e a st =
     (let (summary_dict, h) = st;
          dir1 = fst (input a); dir2 = snd (input a); output_dir = output' a;
          hit_files = find_mutual_files e h [dir1, dir2] ''*Hits*.root'' (Some (detectors a));
          output_dir_hits = join output_dir ''hits'';
          h = ensure_dir e h output_dir_hits
      in case rel_val_ttree e h dir1 dir2 hit_files output_dir_hits a ''o2sim''
                (Some (map (\<lambda>d. ''Hits'' @ d) (detectors a))) of
           Inl err \<Rightarrow> Inl err
         | Inr (r, h) \<Rightarrow>
             add_to_summary e h (glob e h True (output_dir_hits @ ''/**/'' @ look_for))
               ''hist'' summary_dict)"

definition tpctracks ::
  "env \<Rightarrow> args \<Rightarrow> (string \<times> string list) list \<times> history
   \<Rightarrow> error + ((string \<times> string list) list \<times> history)"
where
  "tpctracks e a st =
     (let (summary_dict, h) = st;
          dir1 = fst (input a); dir2 = snd (input a); output_dir = output' a;
          tpctrack_files = find_mutual_files e h [dir1, dir2] ''tpctracks.root'' None;
          output_dir_tpctracks = join output_dir ''tpctracks'';
          h = ensure_dir e h output_dir_tpctracks
      in case rel_val_ttree e h dir1 dir2 tpctrack_files output_dir_tpctracks a ''tpcrec''
                (Some [''tpctracks.root'']) of
           Inl err \<Rightarrow> Inl err
         | Inr (r, h) \<Rightarrow>
             add_to_summary e h (glob e h True (output_dir_tpctracks @ ''/**/'' @ look_for))
               ''tpctracks'' summary_dict)"

definition kine ::
  "env \<Rightarrow> args \<Rightarrow> (string \<times> string list) list \<times> history
   \<Rightarrow> error + ((string \<times> string list) list \<times> history)"
where
  "kine e a st =
     (let (summary_dict, h) = st;
          dir1 = fst (input a); dir2 = snd (input a); output_dir = output' a;
          kine_files = find_mutual_files e h [dir1, dir2] ''*Kine.root'' None;
          output_dir_kine = join output_dir ''kine'';
          h = ensure_dir e h output_dir_kine
      in case rel_val_ttree e h dir1 dir2 kine_files output_dir_kine a ''o2sim''
                (Some [''Kine.root'']) of
           Inl err \<Rightarrow> Inl err
         | Inr (r, h) \<Rightarrow>
             add_to_summary e h (glob e h True (output_dir_kine @ ''/**/'' @ look_for))
               ''kine'' summary_dict)"

definition analysis ::
  "env \<Rightarrow> args \<Rightarrow> (string \<times> string list) list \<times> history
   \<Rightarrow> error + ((string \<times> string list) list \<times> history)"
where
  "analysis e a st =
     (let (summary_dict, h) = st;
          dir1 = fst (input a); dir2 = snd (input a); output_dir = output' a;
          dir_analysis1 = join dir1 ''Analysis'';
          dir_analysis2 = join dir2 ''Analysis'';
          analysis_files = find_mutual_files e h [dir_analysis1, dir_analysis2] ''*.root'' None;
          output_dir_analysis = join output_dir ''analysis'';
          h = h @ [Print (output_dir @ '' '' @ output_dir_analysis)];
          h = ensure_dir e h output_dir_analysis;
          h = rel_val_histograms e h dir_analysis1 dir_analysis2 analysis_files
                output_dir_analysis a
      in add_to_summary e h (glob e h True (output_dir_analysis @ ''/**/'' @ look_for))
           ''analysis'' summary_dict)"

definition qc ::
  "env \<Rightarrow> args \<Rightarrow> (string \<times> string list) list \<times> history
   \<Rightarrow> error + ((string \<times> string list) list \<times> history)"
where
  "qc e a st =
     (let (summary_dict, h) = st;
          dir1 = fst (input a); dir2 = snd (input a); output_dir = output' a;
          dir_qc1 = join dir1 ''QC'';
          dir_qc2 = join dir2 ''QC'';
          qc_files = find_mutual_files e h [dir_qc1, dir_qc2] ''*.root'' None;
          output_dir_qc = join output_dir ''qc'';
          h = ensure_dir e h output_dir_qc;
          h = rel_val_histograms e h dir_qc1 dir_qc2 qc_files output_dir_qc a
      in add_to_summary e h (glob e h True (output_dir_qc @ ''/**/'' @ look_for))
           ''qc'' summary_dict)"

text \<open>\<^verbatim>\<open>if flag: block\<close>, with an exception of the block passed on.\<close>

definition run_if ::
  "bool \<Rightarrow> ('s \<Rightarrow> error + 's) \<Rightarrow> error + 's \<Rightarrow> error + 's"
where
  "run_if flag block st =
     (case st of Inl err \<Rightarrow> Inl err | Inr s \<Rightarrow> if flag then block s else Inr s)"

text \<open>\<^verbatim>\<open>enable all if everything is disabled\<close>: the assignment to the five flags.\<close>

definition enable_all :: "args \<Rightarrow> args" where
  "enable_all a =
     (if \<not> (with_hits a \<or> with_tpctracks a \<or> with_kine a \<or> with_analysis a \<or> with_qc a)
      then a\<lparr>with_hits := True, with_tpctracks := True, with_kine := True,
              with_analysis := True, with_qc := True\<rparr>
      else a)"

definition rel_val_sim_dirs :: "env \<Rightarrow> history \<Rightarrow> args \<Rightarrow> error + history" where
  "rel_val_sim_dirs e h a =
     (let dir1 = fst (input a); dir2 = snd (input a); output_dir = output' a;
          summary_dict = []
      in case file_sizes e h [dir1, dir2] (1 / 2) of
           Inl err \<Rightarrow> Inl err
         | Inr (file_sizes_to_json, h) \<Rightarrow>
             let h = h @ [JsonDump (join output_dir ''file_sizes.json'') file_sizes_to_json];
                 a = enable_all a
             in case run_if (with_qc a) (qc e a)
                      (run_if (with_analysis a) (analysis e a)
                        (run_if (with_kine a) (kine e a)
                          (run_if (with_tpctracks a) (tpctracks e a)
                            (run_if (with_hits a) (hits e a) (Inr (summary_dict, h)))))) of
                  Inl err \<Rightarrow> Inl err
                | Inr (summary_dict, h) \<Rightarrow>
                    Inr (h @ [JsonDump (join output_dir ''SummaryToBeChecked.json'')
                                 (Summary summary_dict)]))"

text \<open>
  \<^verbatim>\<open>rel_val\<close> picks the function to run and calls it as \<^verbatim>\<open>func(args)\<close>. With
  \<^verbatim>\<open>rel_val_files\<close>, which takes four positional arguments, that call raises
  \<^verbatim>\<open>TypeError\<close>. The value returned is \<^verbatim>\<open>1\<close> or, from
  \<^verbatim>\<open>rel_val_sim_dirs\<close>, \<^verbatim>\<open>None\<close>.
\<close>

datatype func = Rel_val_files | Rel_val_sim_dirs

definition rel_val :: "env \<Rightarrow> history \<Rightarrow> args \<Rightarrow> error + (int option \<times> history)" where
  "rel_val e h a =
     (let func = None;
          func = (if isfile e h (fst (input a)) \<and> isfile e h (snd (input a))
                  then Some Rel_val_files else func);
          func = (if is_sim_dir e h (fst (input a)) \<and> is_sim_dir e h (snd (input a))
                  then Some Rel_val_sim_dirs else func)
      in case func of
           None \<Rightarrow>
             Inr (Some 1,
                  h @ [Print ''Please provide either 2 files or 2 simulation directories as input.''])
         | Some f \<Rightarrow>
             let h = ensure_dir e h (output' a)
             in (case f of
                   Rel_val_files \<Rightarrow> Inl TypeError
                 | Rel_val_sim_dirs \<Rightarrow>
                     (case rel_val_sim_dirs e h a of
                        Inl err \<Rightarrow> Inl err
                      | Inr h \<Rightarrow> Inr (None, h))))"

section \<open>Concrete worlds for running the model\<close>

text \<open>
  An outside world with nothing in it: no path exists, no pattern matches, every verdict file
  loads with an empty summary, every child exits with status 0, every ROOT file opens, chains
  have no leaves. The worlds below it change one reading each. \<open>args0\<close> is a command
  line with no category flag set.
\<close>

definition env0 :: env where
  "env0 = \<lparr>o2dpg_root = ''/o2dpg'',
            isfile = (\<lambda>h p. False), isdir = (\<lambda>h p. False), exists = (\<lambda>h p. False),
            glob = (\<lambda>h r p. []), st_size = (\<lambda>h p. 1), abspath = (\<lambda>p. p),
            load_test_summary = (\<lambda>h p. Some Map.empty), wait = (\<lambda>h. 0),
            get_list_of_leaves = (\<lambda>h c. []), tfile_usable = (\<lambda>h p. True),
            draw_result = (\<lambda>h c x. 0),
            str_int = (\<lambda>i. ''0''), str_float = (\<lambda>r. ''0.0''), str_pairs = (\<lambda>ps. ''[]'')\<rparr>"

definition args0 :: args where
  "args0 = \<lparr>input = (''A'', ''B''), output' = ''out'', test = 1, chi2_value = 3 / 2,
             rel_mean_diff = 3 / 2, rel_entries_diff = 1 / 100, select_critical = False,
             no_plots = False, threshold_arg = 1 / 10, with_hits = False,
             with_tpctracks = False, with_kine = False, with_analysis = False,
             with_qc = False, detectors = [''ITS'', ''TPC'']\<rparr>"


text \<open>A world whose verdict files hold \<^verbatim>\<open>{"test_summary": {"BAD": ["h1"]}}\<close>.\<close>

definition env_bad :: env where
  "env_bad = env0\<lparr>load_test_summary := (\<lambda>h p. Some [''BAD'' \<mapsto> [''h1'']])\<rparr>"

text \<open>A world where each of the directories \<^verbatim>\<open>A\<close> and \<^verbatim>\<open>B\<close> holds the one file
  \<^verbatim>\<open>TPC/HitsITS.root\<close>.\<close>

definition env_hits :: env where
  "env_hits = env0\<lparr>glob := (\<lambda>h r p.
       if r \<and> p = ''A/**/*Hits*.root'' then [''A/TPC/HitsITS.root'']
       else if r \<and> p = ''B/**/*Hits*.root'' then [''B/TPC/HitsITS.root'']
       else [])\<rparr>"


section \<open>Reading the events\<close>



section \<open>Properties of \<^verbatim>\<open>exceeding_difference_thresh\<close>\<close>

lemma set_combinations2: "set (combinations2 n) = {(i, j). i < j \<and> j < n}"
  by (auto simp: combinations2_def image_iff)

lemma exceeds_nonzero:
  "sizes ! snd p \<noteq> 0 \<Longrightarrow> exceeds sizes t p = Inr (rel_diff sizes p > t)"
  by (simp add: exceeds_def truediv_def rel_diff_def Let_def)

lemma exceeds_zero:
  "sizes ! snd p = 0 \<Longrightarrow> exceeds sizes t p = Inl ZeroDivisionError"
  by (simp add: exceeds_def truediv_def Let_def)

lemma edt_loop_nonzero:
  "\<forall>p \<in> set ps. sizes ! snd p \<noteq> 0 \<Longrightarrow>
   edt_loop sizes t ps acc = Inr (acc @ filter (\<lambda>p. rel_diff sizes p > t) ps)"
  by (induction ps arbitrary: acc) (simp_all add: exceeds_nonzero)

lemma edt_loop_zero:
  "\<exists>p \<in> set ps. sizes ! snd p = 0 \<Longrightarrow> edt_loop sizes t ps acc = Inl ZeroDivisionError"
proof (induction ps arbitrary: acc)
  case Nil
  then show ?case by simp
next
  case (Cons p ps)
  show ?case
  proof (cases "sizes ! snd p = 0")
    case True
    then show ?thesis by (simp add: exceeds_zero)
  next
    case False
    with Cons.prems have "\<exists>q \<in> set ps. sizes ! snd q = 0" by auto
    with Cons.IH False show ?thesis by (simp add: exceeds_nonzero split: bool.splits)
  qed
qed

lemma zero_denominator_iff:
  "(\<exists>p \<in> set (combinations2 (length sizes)). sizes ! snd p = 0)
   \<longleftrightarrow> (\<exists>j. 0 < j \<and> j < length sizes \<and> sizes ! j = 0)"
proof
  assume "\<exists>p \<in> set (combinations2 (length sizes)). sizes ! snd p = 0"
  then obtain i j where "i < j" "j < length sizes" "sizes ! j = 0"
    by (auto simp: set_combinations2)
  then have "0 < j \<and> j < length sizes \<and> sizes ! j = 0" by simp
  then show "\<exists>j. 0 < j \<and> j < length sizes \<and> sizes ! j = 0" ..
next
  assume "\<exists>j. 0 < j \<and> j < length sizes \<and> sizes ! j = 0"
  then obtain j where "0 < j" "j < length sizes" "sizes ! j = 0" by blast
  then have "(0, j) \<in> set (combinations2 (length sizes))" "sizes ! snd (0, j) = 0"
    by (simp_all add: set_combinations2)
  then show "\<exists>p \<in> set (combinations2 (length sizes)). sizes ! snd p = 0" ..
qed

lemma exceeding_difference_thresh_nonzero:
  assumes "\<forall>j. 0 < j \<and> j < length sizes \<longrightarrow> sizes ! j \<noteq> 0"
  shows "exceeding_difference_thresh sizes t =
         Inr (filter (\<lambda>p. rel_diff sizes p > t) (combinations2 (length sizes)))"
proof -
  have "\<forall>p \<in> set (combinations2 (length sizes)). sizes ! snd p \<noteq> 0"
    using assms zero_denominator_iff [of sizes] by blast
  then show ?thesis
    unfolding exceeding_difference_thresh_def by (simp add: edt_loop_nonzero)
qed

lemma exceeding_difference_thresh_zero:
  assumes "0 < j" "j < length sizes" "sizes ! j = 0"
  shows "exceeding_difference_thresh sizes t = Inl ZeroDivisionError"
proof -
  have "\<exists>p \<in> set (combinations2 (length sizes)). sizes ! snd p = 0"
    using assms zero_denominator_iff [of sizes] by blast
  then show ?thesis
    unfolding exceeding_difference_thresh_def by (rule edt_loop_zero)
qed

text \<open>
  Claim C2, as stated: the function is total on every list of sizes, flags a zero against a
  nonzero size whatever the threshold, and does not flag two zero sizes. The code divides by
  \<^verbatim>\<open>sizes[i2]\<close> with no guard: a zero in the second position of a pair raises, also
  when both sizes are zero; and a zero in the first position gives the quotient 1, which a
  threshold of 1 or more does not flag.
\<close>

theorem exceeding_difference_thresh_zero_counterexample:
  "exceeding_difference_thresh [5, 0] (1 / 10) = Inl ZeroDivisionError
   \<and> exceeding_difference_thresh [0, 0] (1 / 10) = Inl ZeroDivisionError
   \<and> exceeding_difference_thresh [0, 5] 2 = Inr []"
  by (simp add: exceeding_difference_thresh_def combinations2_def exceeds_def truediv_def)

text \<open>
  Claim C2, amended: on every list of file sizes (none negative) with no zero in a denominator
  position, that is at an index from 1 on, and for every threshold,
  \<^verbatim>\<open>exceeding_difference_thresh\<close> returns normally, and a pair whose first size is zero
  is flagged exactly when the threshold is below 1.
\<close>

theorem exceeding_difference_thresh_zero_first:
  assumes nz: "\<forall>j. 0 < j \<and> j < length sizes \<longrightarrow> sizes ! j \<noteq> 0"
    and nn: "\<forall>s \<in> set sizes. 0 \<le> s"
  shows "\<exists>r. exceeding_difference_thresh sizes t = Inr r
           \<and> (\<forall>i j. i < j \<and> j < length sizes \<and> sizes ! i = 0
                  \<longrightarrow> ((i, j) \<in> set r \<longleftrightarrow> t < 1))"
proof -
  let ?r = "filter (\<lambda>p. rel_diff sizes p > t) (combinations2 (length sizes))"
  have ret: "exceeding_difference_thresh sizes t = Inr ?r"
    using nz by (rule exceeding_difference_thresh_nonzero)
  have "(i, j) \<in> set ?r \<longleftrightarrow> t < 1"
    if h: "i < j \<and> j < length sizes \<and> sizes ! i = 0" for i j
  proof -
    from h nz have "sizes ! j \<noteq> 0" by auto
    moreover from h nn have "0 \<le> sizes ! j" by simp
    ultimately have pos: "0 < sizes ! j" by simp
    then have "rel_diff sizes (i, j) = 1"
      using h by (simp add: rel_diff_def)
    with h show ?thesis by (simp add: set_combinations2)
  qed
  with ret show ?thesis by blast
qed

theorem exceeding_difference_thresh_zero_first_witness:
  "\<exists>r. exceeding_difference_thresh [0, 5] (1 / 2) = Inr r \<and> (0, 1) \<in> set r"
proof -
  have nz: "\<forall>j. 0 < j \<and> j < length [0, 5 :: int] \<longrightarrow> [0, 5 :: int] ! j \<noteq> 0"
    by (simp add: nth_Cons')
  have nn: "\<forall>s \<in> set [0, 5 :: int]. 0 \<le> s" by simp
  from exceeding_difference_thresh_zero_first [OF nz nn, of "1 / 2"]
  show ?thesis by auto
qed



section \<open>Properties of PathSetMatcher\<close>

text \<open>
  Claim C10: on the empty sequence of directories \<^verbatim>\<open>find_mutual_files\<close> returns the
  empty list, for every pattern and every \<^verbatim>\<open>grep\<close>. The model of the function has no
  error branch: the function is total on every number of directories.
\<close>

theorem find_mutual_files_no_dirs: "find_mutual_files e h [] glob_pattern grep = []"
  by (simp add: find_mutual_files_def)

lemma set_set_inter: "set (set_inter xs ys) = set xs \<inter> set ys"
  by (auto simp: set_inter_def)

lemma distinct_set_inter: "distinct (set_inter xs ys)"
  by (simp add: set_inter_def)

lemma set_grep_filter:
  "set (grep_filter grep xs) = {x \<in> set xs. \<exists>g \<in> set grep. str_in g x}"
  by (auto simp: grep_filter_def)

lemma count_grep_filter:
  "distinct xs \<Longrightarrow>
   count_list (grep_filter grep xs) x
     = (if x \<in> set xs then length (filter (\<lambda>g. str_in g x) grep) else 0)"
proof (induction grep)
  case Nil
  then show ?case by (simp add: grep_filter_def)
next
  case (Cons g gs)
  have "count_list (filter (\<lambda>ic. str_in g ic) xs) x = (if x \<in> set xs \<and> str_in g x then 1 else 0)"
    using Cons.prems by (induction xs) auto
  with Cons show ?case by (simp add: grep_filter_def)
qed

lemma count_list_sort: "count_list (sort xs) x = count_list xs x"
  by (metis count_mset mset_sort)

lemma find_mutual_files_two_dirs:
  "find_mutual_files e h [dA, dB] pat grep =
     sort (if truthy grep
           then grep_filter (the grep)
                  (set_inter (relative_names dA (glob e h True (dA @ ''/**/'' @ pat)))
                             (relative_names dB (glob e h True (dB @ ''/**/'' @ pat))))
           else set_inter (relative_names dA (glob e h True (dA @ ''/**/'' @ pat)))
                          (relative_names dB (glob e h True (dB @ ''/**/'' @ pat))))"
  by (simp add: find_mutual_files_def Let_def)

lemma find_mutual_files_no_grep:
  assumes "\<not> truthy grep"
  shows "sorted (find_mutual_files e h [dA, dB] pat grep)
         \<and> distinct (find_mutual_files e h [dA, dB] pat grep)
         \<and> set (find_mutual_files e h [dA, dB] pat grep)
             = set (relative_names dA (glob e h True (dA @ ''/**/'' @ pat)))
               \<inter> set (relative_names dB (glob e h True (dB @ ''/**/'' @ pat)))"
  using assms
  by (simp add: find_mutual_files_two_dirs set_set_inter distinct_set_inter)

lemma find_mutual_files_grep:
  assumes "F \<noteq> []"
  shows "sorted (find_mutual_files e h [dA, dB] pat (Some F))
         \<and> set (find_mutual_files e h [dA, dB] pat (Some F))
             = {x \<in> set (relative_names dA (glob e h True (dA @ ''/**/'' @ pat)))
                    \<inter> set (relative_names dB (glob e h True (dB @ ''/**/'' @ pat))).
                \<exists>g \<in> set F. str_in g x}
         \<and> count_list (find_mutual_files e h [dA, dB] pat (Some F)) x
             = (if x \<in> set (relative_names dA (glob e h True (dA @ ''/**/'' @ pat)))
                       \<inter> set (relative_names dB (glob e h True (dB @ ''/**/'' @ pat)))
                then length (filter (\<lambda>g. str_in g x) F) else 0)"
  using assms
  by (simp add: find_mutual_files_two_dirs truthy_def set_grep_filter set_set_inter
      count_list_sort count_grep_filter distinct_set_inter)

text \<open>The order in which \<open>set_inter\<close> lists the intersection does not show in the result:
  any list of the same elements without repetition gives the same sorted output.\<close>

lemma mset_grep_filter:
  "mset xs = mset ys \<Longrightarrow> mset (grep_filter grep xs) = mset (grep_filter grep ys)"
  by (induction grep) (simp_all add: grep_filter_def)

lemma sort_order_irrelevant:
  assumes "distinct ys" "set ys = set (set_inter as bs)"
  shows "sort ys = sort (set_inter as bs)"
    and "sort (grep_filter grep ys) = sort (grep_filter grep (set_inter as bs))"
proof -
  have m: "mset ys = mset (set_inter as bs)"
    using assms distinct_set_inter [of as bs] by (simp add: set_eq_iff_mset_eq_distinct)
  then show "sort ys = sort (set_inter as bs)"
    by (metis sorted_list_of_multiset_mset)
  from m have "mset (grep_filter grep ys) = mset (grep_filter grep (set_inter as bs))"
    by (rule mset_grep_filter)
  then show "sort (grep_filter grep ys) = sort (grep_filter grep (set_inter as bs))"
    by (metis sorted_list_of_multiset_mset)
qed

text \<open>
  Claim C4 at the listings where \<^verbatim>\<open>A\<close> and \<^verbatim>\<open>B\<close> each hold
  \<^verbatim>\<open>TPC/HitsITS.root\<close>, with the pattern \<^verbatim>\<open>*Hits*.root\<close> and the filters
  \<^verbatim>\<open>["ITS", "TPC"]\<close>: the claim asks for a duplicate-free result; the entry contains
  both filters and is returned twice, once by each round of the filter loop.
\<close>

theorem find_mutual_files_grep_duplicates:
  "find_mutual_files env_hits [] [''A'', ''B''] ''*Hits*.root'' (Some [''ITS'', ''TPC''])
     = [''TPC/HitsITS.root'', ''TPC/HitsITS.root'']"
  by (simp add: find_mutual_files_def env_hits_def env0_def relative_names_def
      lstrip_slash_def set_inter_def truthy_def grep_filter_def str_in_def sublist_code)

section \<open>Properties of \<^verbatim>\<open>rel_val_ttree\<close>\<close>

lemma to_be_chained_grouped:
  "cps \<noteq> [] \<Longrightarrow>
   to_be_chained dir1 dir2 files (Some cps) =
     (map (\<lambda>cp. Paths (map (join dir1) (filter (str_in cp) files))) cps,
      map (\<lambda>cp. Paths (map (join dir2) (filter (str_in cp) files))) cps,
      map (\<lambda>cp. cp @ ''_dir'') cps)"
  by (simp add: to_be_chained_def truthy_def)

lemma to_be_chained_ungrouped:
  "\<not> truthy combine_patterns \<Longrightarrow>
   to_be_chained dir1 dir2 files combine_patterns =
     (map (\<lambda>hf. Path (join dir1 hf)) files,
      map (\<lambda>hf. Path (join dir1 hf)) files,
      map (\<lambda>hf. hf @ ''_dir'') files)"
  by (simp add: to_be_chained_def)

text \<open>
  Claim C1 at the input \<^verbatim>\<open>dir1 = "A"\<close>, \<^verbatim>\<open>dir2 = "B"\<close>,
  \<^verbatim>\<open>files = ["x.root"]\<close> with no \<^verbatim>\<open>combine_patterns\<close>: the claim asks for side B's
  chain to be built from \<^verbatim>\<open>B/x.root\<close>; the ungrouped branch builds both sides from
  \<^verbatim>\<open>A/x.root\<close>.
\<close>

theorem to_be_chained_ungrouped_same_side:
  "to_be_chained ''A'' ''B'' [''x.root''] None
     = ([Path ''A/x.root''], [Path ''A/x.root''], [''x.root_dir''])
   \<and> join ''B'' ''x.root'' = ''B/x.root''"
  by (simp add: to_be_chained_def truthy_def join_def)

section \<open>Properties of \<^verbatim>\<open>rel_val_files\<close>\<close>



section \<open>Properties of \<^verbatim>\<open>has_severity\<close>\<close>

lemma has_severity_loop_flag:
  "fst (has_severity_loop res severity ret h)
     = (ret \<or> (\<exists>s \<in> set severity. \<exists>names. res s = Some names \<and> names \<noteq> []))"
  by (induction severity arbitrary: ret h) (auto split: option.splits)

text \<open>
  Claim C5: for a verdict file that loads with the summary \<open>res\<close>, \<^verbatim>\<open>has_severity\<close>
  returns normally, and returns true exactly when some requested severity has a non-empty
  list in \<open>res\<close>; with the summary \<^verbatim>\<open>{"BAD": ["h1"]}\<close> it returns true for the
  severities \<^verbatim>\<open>BAD\<close> and false for \<^verbatim>\<open>GOOD\<close>.
\<close>

theorem has_severity_flags:
  assumes "load_test_summary e h filename = Some res"
  shows "(\<exists>h'. has_severity e h filename severity
                 = Inr ((\<exists>s \<in> set severity. \<exists>names. res s = Some names \<and> names \<noteq> []), h'))
         \<and> (res = [''BAD'' \<mapsto> [''h1'']] \<longrightarrow>
              (\<exists>h'. has_severity e h filename [''BAD''] = Inr (True, h'))
              \<and> (\<exists>h'. has_severity e h filename [''GOOD''] = Inr (False, h')))"
proof -
  have "has_severity e h filename sev
          = Inr ((\<exists>s \<in> set sev. \<exists>names. res s = Some names \<and> names \<noteq> []),
                 snd (has_severity_loop res sev False h))" for sev
    using assms has_severity_loop_flag [of res sev False h]
    by (simp add: has_severity_def prod_eq_iff)
  then show ?thesis by auto
qed

theorem has_severity_flags_witness:
  "(\<exists>h'. has_severity env_bad [] ''Summary.json'' [''BAD''] = Inr (True, h'))
   \<and> (\<exists>h'. has_severity env_bad [] ''Summary.json'' [''GOOD''] = Inr (False, h'))"
proof -
  have l: "load_test_summary env_bad [] ''Summary.json'' = Some [''BAD'' \<mapsto> [''h1'']]"
    by (simp add: env_bad_def env0_def)
  from has_severity_flags [OF l, of "[''BAD'']"] show ?thesis by simp
qed

section \<open>Properties of \<^verbatim>\<open>rel_val\<close>\<close>

text \<open>
  Claim C7: when the two inputs are neither two existing files nor two simulation
  directories (directories with at least one entry matching \<^verbatim>\<open>pipeline*\<close>),
  \<^verbatim>\<open>rel_val\<close> returns 1 and its only effect is the printed message: no directory is
  made, nothing is written, no process is started.
\<close>

theorem rel_val_invalid_input:
  assumes "\<not> (isfile e h (fst (input a)) \<and> isfile e h (snd (input a)))"
    and "\<not> (isdir e h (fst (input a)) \<and> glob e h False (fst (input a) @ ''/pipeline*'') \<noteq> []
            \<and> isdir e h (snd (input a)) \<and> glob e h False (snd (input a) @ ''/pipeline*'') \<noteq> [])"
  shows "rel_val e h a
           = Inr (Some 1,
                  h @ [Print ''Please provide either 2 files or 2 simulation directories as input.''])"
  using assms by (auto simp: rel_val_def is_sim_dir_def)

theorem rel_val_invalid_input_witness:
  "rel_val env0 [] args0
     = Inr (Some 1, [Print ''Please provide either 2 files or 2 simulation directories as input.''])"
  using rel_val_invalid_input [of env0 "[]" args0] by (simp add: env0_def)

section \<open>Properties of \<^verbatim>\<open>make_generic_histograms_from_chain\<close>\<close>







section \<open>Properties of \<^verbatim>\<open>rel_val_sim_dirs\<close>\<close>

subsection \<open>The keys of the summary\<close>









subsection \<open>Normal return\<close>

















subsection \<open>The categories that run\<close>








end
